theory Spec2Isabelle
  imports Complex_Main "HOL-Library.Word"
begin

unbundle bit_operations_syntax

section \<open>Conventions of the embedding\<close>

text \<open>
  The development embeds the two C files of the playback core, \<^verbatim>\<open>software/player.c\<close>
  and \<^verbatim>\<open>software/dicer.c\<close>.

  \<^item> A C \<^verbatim>\<open>double\<close> is a \<^typ>\<open>real\<close>; infinities and NaN are not modelled. The
    arithmetic that carries the position from one sample to the next (\<open>update_position\<close>)
    rounds every result to the nearest double, as the machine does (\<open>fl\<close> below), since
    its error accumulates over a block. The other double expressions are evaluated in
    exact real arithmetic: rounding is not modelled there.
  \<^item> \<^verbatim>\<open>unsigned char\<close> is \<^typ>\<open>8 word\<close>, \<^verbatim>\<open>signed short\<close> is \<^typ>\<open>16 word\<close> read with
    \<^const>\<open>sint\<close>, \<^verbatim>\<open>unsigned int\<close> is \<^typ>\<open>32 word\<close>.
  \<^item> A C array of fixed size is a function from the index (\<^verbatim>\<open>y[3]\<close> is \<open>y 3\<close>); the
    output buffer \<^verbatim>\<open>pcm\<close> is the memory behind the pointer, a function from the offset.
  \<^item> Functions of headers that are not part of the two files (the spin lock, the input
    queue, the deck, the MIDI transport) are parameters or call traces, as said at each.
\<close>

type_synonym uchar = "8 word"
type_synonym sshort = "16 word"
type_synonym u32 = "32 word"

section \<open>player.c\<close>

subsection \<open>Constants\<close>

definition SYNC_TIME :: real where "SYNC_TIME = 1 / 2"
definition SYNC_PITCH :: real where "SYNC_PITCH = 0.05"
definition SKIP_THRESHOLD :: real where "SKIP_THRESHOLD = 1 / 8"
definition SHRT_MAX :: int where "SHRT_MAX = 32767"
definition SHRT_MIN :: int where "SHRT_MIN = - 32768"

text \<open>
  \<^verbatim>\<open>PLAYER_CHANNELS\<close> comes from \<^verbatim>\<open>player.h\<close>; the output stride \<^verbatim>\<open>pcm + (2 * s) + c\<close> of
  \<^verbatim>\<open>build_pcm\<close> fixes it to two interleaved channels.
\<close>

definition PLAYER_CHANNELS :: nat where "PLAYER_CHANNELS = 2"

definition SQ :: "real \<Rightarrow> real" where "SQ x = x * x"

subsection \<open>Cubic interpolation\<close>

text \<open>
  \<^verbatim>\<open>cubic_interpolate(signed short y[4], double mu)\<close>. The coefficients are computed in
  C integer arithmetic on the promoted samples; their magnitude is at most
  \<open>6 * 32768\<close>, so no wrap-around occurs and they are modelled in \<^typ>\<open>int\<close>.
\<close>

definition cubic_interpolate :: "(nat \<Rightarrow> sshort) \<Rightarrow> real \<Rightarrow> real" where
  "cubic_interpolate y mu =
     (let mu2 = SQ mu;
          a0 = sint (y 3) - sint (y 2) - sint (y 0) + sint (y 1);
          a1 = sint (y 0) - sint (y 1) - a0;
          a2 = sint (y 2) - sint (y 0);
          a3 = sint (y 1)
      in (mu * mu2 * real_of_int a0) + (mu2 * real_of_int a1) + (mu * real_of_int a2)
           + real_of_int a3)"

subsection \<open>Dither\<close>

text \<open>
  \<^verbatim>\<open>dither()\<close> keeps its 32-bit shift register in a function-local \<^verbatim>\<open>static\<close>; the
  model passes the register in and returns it updated. The local \<^verbatim>\<open>bit\<close> is \<open>b\<close> here.
\<close>

definition dither_seed :: u32 where "dither_seed = 0xbeefface"

definition dither :: "u32 \<Rightarrow> real \<times> u32" where
  "dither x =
     (let b = (x XOR drop_bit 1 x XOR drop_bit 21 x XOR drop_bit 31 x) AND 1;
          x' = push_bit 1 x OR b;
          v = (x' AND 0x0000000f) OR drop_bit 12 (x' AND 0x000f0000)
                OR drop_bit 16 (x' AND 0x0f000000)
      in (real (unat v) / 4096 - 0.5, x'))"

subsection \<open>Track and player state\<close>

text \<open>
  \<^verbatim>\<open>struct track\<close> (\<^verbatim>\<open>track.h\<close>, not part of the two files): the fields that
  \<^verbatim>\<open>player.c\<close> reads. \<open>length_t\<close> is the field \<^verbatim>\<open>length\<close> (number of samples), \<open>rate\<close> the
  native sample rate, \<open>sample_data\<close> the PCM data by sample index and channel.
\<close>

record track =
  length_t :: nat
  rate :: int
  sample_data :: "nat \<Rightarrow> nat \<Rightarrow> sshort"

text \<open>
  Modelled from the spec: \<^verbatim>\<open>track_get_sample\<close> of \<^verbatim>\<open>track.h\<close> is missing; the spec gives the
  track "per-index, per-channel sample access". The player calls it only with
  \<open>0 \<le> sa < length\<close>.
\<close>

definition track_get_sample :: "track \<Rightarrow> int \<Rightarrow> nat \<Rightarrow> sshort" where
  "track_get_sample tr sa c = sample_data tr (nat sa) c"

text \<open>
  \<^verbatim>\<open>struct player\<close> (\<^verbatim>\<open>player.h\<close>): the fields that the embedded functions read or write.
  \<open>'q\<close> is the type of the input queue behind \<^verbatim>\<open>scqueue\<close>. \<open>lock\<close> is the spin lock:
  \<open>True\<close> when it is held.
\<close>

record 'q player =
  position :: real
  target_position :: real
  offset :: real
  last_difference :: real
  last_position :: real
  pitch :: real
  sync_pitch :: real
  nominal_pitch :: real
  volume :: real
  timestamp :: real
  sample_dt :: real
  samplesSoFar :: nat
  recalibrate :: bool
  timecode_control :: bool
  track :: track
  scqueue :: 'q
  lock :: bool

text \<open>\<^verbatim>\<open>player_get_remain\<close>: the seconds left on the track, by the track's own rate.\<close>

definition player_get_remain :: "'q player \<Rightarrow> real" where
  "player_get_remain pl =
     real (length_t (track pl)) / real_of_int (rate (track pl)) + offset pl - position pl"

subsection \<open>Resynchronisation\<close>

text \<open>
  \<^verbatim>\<open>calibrate_to_timecode_position\<close>. Its assertion \<^verbatim>\<open>target_position != TARGET_UNKNOWN\<close>
  compares with \<^verbatim>\<open>INFINITY\<close>, which no \<^typ>\<open>real\<close> equals: it always holds in the model.
\<close>

definition calibrate_to_timecode_position :: "'q player \<Rightarrow> 'q player" where
  "calibrate_to_timecode_position pl =
     (let pl1 = pl\<lparr>offset := offset pl + (target_position pl - position pl)\<rparr>
      in pl1\<lparr>position := target_position pl1\<rparr>)"

text \<open>
  \<^verbatim>\<open>retarget\<close>. The \<^verbatim>\<open>fprintf\<close> of the seek branch is not modelled. A zero denominator in
  the last branch gives infinity or NaN in C and \<open>0\<close> in HOL; nothing below depends on it.
\<close>

definition retarget :: "'q player \<Rightarrow> 'q player" where
  "retarget pl0 =
     (let pl1 = (if recalibrate pl0
                 then (calibrate_to_timecode_position pl0)\<lparr>recalibrate := False\<rparr>
                 else pl0);
          diff = position pl1 - target_position pl1;
          pl2 = pl1\<lparr>last_difference := diff\<rparr>
      in if \<bar>diff\<bar> > SKIP_THRESHOLD then pl2\<lparr>position := target_position pl2\<rparr>
         else if \<bar>pitch pl2\<bar> > SYNC_PITCH
         then pl2\<lparr>sync_pitch := pitch pl2 / (diff / SYNC_TIME + pitch pl2)\<rparr>
         else pl2)"

subsection \<open>Double arithmetic\<close>

text \<open>
  The nearest integer to a real, the even one of the two on a tie.
\<close>

definition round_even :: "real \<Rightarrow> int" where
  "round_even r =
     (let f = \<lfloor>r\<rfloor>; d = r - real_of_int f
      in if d < 1 / 2 then f
         else if d > 1 / 2 then f + 1
         else if even f then f else f + 1)"

text \<open>
  \<open>fl x\<close> is the double that an arithmetic operation with the exact result \<open>x\<close> delivers
  (IEEE 754 binary64, round to nearest, ties to even): \<open>x\<close> rounded to a multiple of the
  spacing \<open>q\<close> of the doubles at its magnitude, which is \<open>2 ^ (e - 52)\<close> for
  \<open>2 ^ e \<le> \<bar>x\<bar> < 2 ^ (e + 1)\<close> and never below that of the subnormal numbers
  (\<open>e = - 1022\<close>). Overflow to infinity is not modelled.
\<close>

definition fl :: "real \<Rightarrow> real" where
  "fl x =
     (if x = 0 then 0
      else let e = max \<lfloor>log 2 \<bar>x\<bar>\<rfloor> (- 1022);
               q = 2 powr (real_of_int e - 52)
           in real_of_int (round_even (x / q)) * q)"

subsection \<open>Rendering a block\<close>

text \<open>
  \<^verbatim>\<open>InterpolateQueue(pl->scqueue, &pl->timestamp, &is.target_position)\<close> belongs to
  \<^verbatim>\<open>sc_queue.h\<close>, which is not part of the two files: it is a parameter. Given the queue
  and the time stamp it returns whether an entry was produced, the queue and the time stamp
  as it leaves them, and the target position written through the last pointer.
\<close>

type_synonym 'q interpolate_queue = "'q \<Rightarrow> real \<Rightarrow> bool \<times> 'q \<times> real \<times> real"

text \<open>
  The first part of the loop body of \<^verbatim>\<open>build_pcm\<close> (from the call of \<^verbatim>\<open>InterpolateQueue\<close> to
  \<^verbatim>\<open>pl->samplesSoFar++\<close>): the only place of the render path that writes \<open>position\<close> and
  \<open>pitch\<close>. Its two additions and its subtraction of doubles are rounded.
\<close>

definition update_position :: "'q interpolate_queue \<Rightarrow> 'q player \<Rightarrow> 'q player" where
  "update_position iq pl =
     (case iq (scqueue pl) (timestamp pl) of (got, q', ts', target) \<Rightarrow>
        let pl0 = pl\<lparr>scqueue := q', timestamp := ts'\<rparr>;
            pl4 = (if got then
                     let pl1 = pl0\<lparr>position := target\<rparr>;
                         pl2 = pl1\<lparr>pitch := fl (position pl1 - last_position pl1)\<rparr>;
                         pl3 = pl2\<lparr>last_position := position pl2\<rparr>
                     in pl3\<lparr>timestamp := fl (timestamp pl3 + sample_dt pl3)\<rparr>
                   else pl0\<lparr>position := fl (position pl0 + pitch pl0)\<rparr>)
        in pl4\<lparr>samplesSoFar := samplesSoFar pl4 + 1\<rparr>)"

text \<open>The C cast \<^verbatim>\<open>(int)\<close> of a double truncates towards zero (values that do not fit
  an \<^verbatim>\<open>int\<close> are undefined in C and not modelled).\<close>

definition int_of_double :: "real \<Rightarrow> int" where
  "int_of_double v = (if 0 \<le> v then \<lfloor>v\<rfloor> else \<lceil>v\<rceil>)"

text \<open>
  The 4-sample window of \<^verbatim>\<open>build_pcm\<close>: the index \<^verbatim>\<open>sa\<close> of its first tap and the fraction
  \<^verbatim>\<open>f\<close>, from \<^verbatim>\<open>sample = pl->position * 48000\<close>.
\<close>

definition window :: "'q player \<Rightarrow> int \<times> real" where
  "window pl =
     (let sample = position pl * 48000;
          sa0 = int_of_double sample;
          sa1 = (if sample < 0 then sa0 - 1 else sa0);
          f = sample - real_of_int sa1
      in (sa1 - 1, f))"

text \<open>The array \<^verbatim>\<open>i[c][q]\<close>: tap \<open>q\<close> of channel \<open>c\<close> for a window that starts at \<open>sa\<close>.\<close>

definition taps :: "track \<Rightarrow> int \<Rightarrow> nat \<Rightarrow> nat \<Rightarrow> sshort" where
  "taps tr sa c q =
     (let k = sa + int q
      in if k < 0 \<or> k \<ge> int (length_t tr) then 0 else track_get_sample tr k c)"

text \<open>The clamped store \<^verbatim>\<open>*sp = ...\<close> of one output value.\<close>

definition clamp_short :: "real \<Rightarrow> sshort" where
  "clamp_short v =
     (if v > real_of_int SHRT_MAX then word_of_int SHRT_MAX
      else if v < real_of_int SHRT_MIN then word_of_int SHRT_MIN
      else word_of_int (int_of_double v))"

text \<open>
  What rendering works on: the player, the memory behind \<^verbatim>\<open>pcm\<close> and the register of
  \<^verbatim>\<open>dither\<close>.
\<close>

record 'q render =
  pl :: "'q player"
  pcm :: "nat \<Rightarrow> sshort"
  dither_x :: u32

text \<open>One round of the channel loop at output sample \<open>s\<close>, channel \<open>c\<close>.\<close>

definition render_channel ::
  "(nat \<Rightarrow> nat \<Rightarrow> sshort) \<Rightarrow> real \<Rightarrow> real \<Rightarrow> nat \<Rightarrow> nat \<Rightarrow>
     (nat \<Rightarrow> sshort) \<times> u32 \<Rightarrow> (nat \<Rightarrow> sshort) \<times> u32" where
  "render_channel i f vol s c = (\<lambda>(out, x).
     let (d, x') = dither x;
         v = vol * cubic_interpolate (i c) f + d
     in (out((2 * s) + c := clamp_short v), x'))"

text \<open>The body of the sample loop of \<^verbatim>\<open>build_pcm\<close> at output sample \<open>s\<close>; \<open>vol\<close> is \<open>0.5\<close>.\<close>

definition render_sample :: "'q interpolate_queue \<Rightarrow> nat \<Rightarrow> 'q render \<Rightarrow> 'q render" where
  "render_sample iq s m =
     (let p = update_position iq (pl m);
          (sa, f) = window p;
          i = taps (track p) sa;
          (out, x') = fold (render_channel i f 0.5 s) [0..<PLAYER_CHANNELS] (pcm m, dither_x m)
      in m\<lparr>pl := p, pcm := out, dither_x := x'\<rparr>)"

text \<open>
  \<^verbatim>\<open>for (s = 0; s < samples; s++)\<close> of \<^verbatim>\<open>build_pcm\<close>, entered at \<open>s\<close>. The C function is
  declared to return a double and has no \<^verbatim>\<open>return\<close>; its caller never reads the result, and
  the model returns the state only.
\<close>

function build_pcm_from :: "'q interpolate_queue \<Rightarrow> nat \<Rightarrow> nat \<Rightarrow> 'q render \<Rightarrow> 'q render" where
  "build_pcm_from iq samples s m =
     (if s < samples then build_pcm_from iq samples (Suc s) (render_sample iq s m) else m)"
  by pat_completeness auto
termination
  by (relation "measure (\<lambda>(iq, samples, s, m). samples - s)") auto

declare build_pcm_from.simps [simp del]

definition build_pcm :: "'q interpolate_queue \<Rightarrow> 'q render \<Rightarrow> nat \<Rightarrow> 'q render" where
  "build_pcm iq m samples = build_pcm_from iq samples 0 m"

subsection \<open>The lock and the audio callback\<close>

text \<open>
  Modelled from the spec: \<^verbatim>\<open>spin_try_lock\<close> and \<^verbatim>\<open>spin_unlock\<close> belong to a header that is
  not part of the two files. The spec's try-lock is "a non-blocking lock-acquisition attempt
  that reports immediate success or failure instead of waiting". The argument is the lock
  (\<open>True\<close>: held, here by another thread); the result of \<open>spin_try_lock\<close> is whether the lock
  was acquired, and the lock afterwards.
\<close>

definition spin_try_lock :: "bool \<Rightarrow> bool \<times> bool" where
  "spin_try_lock l = (if l then (False, l) else (True, True))"

definition spin_unlock :: "bool \<Rightarrow> bool" where
  "spin_unlock l = False"

text \<open>\<^verbatim>\<open>player_collect\<close>: the branch of a failed try-lock is empty in the source.\<close>

definition player_collect :: "'q interpolate_queue \<Rightarrow> 'q render \<Rightarrow> nat \<Rightarrow> 'q render" where
  "player_collect iq m totalSamples =
     (case spin_try_lock (lock (pl m)) of (acquired, l) \<Rightarrow>
        let m0 = m\<lparr>pl := (pl m)\<lparr>lock := l\<rparr>\<rparr>
        in if \<not> acquired then m0
           else let m1 = build_pcm iq m0 totalSamples
                in m1\<lparr>pl := (pl m1)\<lparr>lock := spin_unlock (lock (pl m1))\<rparr>\<rparr>)"

section \<open>dicer.c\<close>

subsection \<open>Action classes and the deck\<close>

definition CUE :: uchar where "CUE = 0"
definition LOOP :: uchar where "LOOP = 1"
definition ROLL :: uchar where "ROLL = 2"
definition NOTE :: uchar where "NOTE = 3"

text \<open>
  \<^verbatim>\<open>struct deck\<close> and its operations belong to \<^verbatim>\<open>deck.h\<close>, which is not part of the two
  files. The deck is its player (the decoder writes \<^verbatim>\<open>d->player.nominal_pitch\<close>) and the trace
  of the deck operations invoked on it, oldest first; what an operation does inside the deck
  is not modelled.
\<close>

datatype deck_call =
  Deck_unset_cue uchar
| Deck_cue uchar
| Deck_punch_in uchar
| Deck_punch_out

record 'q deck =
  player :: "'q player"
  calls :: "deck_call list"

definition deck_unset_cue :: "'q deck \<Rightarrow> uchar \<Rightarrow> 'q deck" where
  "deck_unset_cue d button = d\<lparr>calls := calls d @ [Deck_unset_cue button]\<rparr>"

definition deck_cue :: "'q deck \<Rightarrow> uchar \<Rightarrow> 'q deck" where
  "deck_cue d button = d\<lparr>calls := calls d @ [Deck_cue button]\<rparr>"

definition deck_punch_in :: "'q deck \<Rightarrow> uchar \<Rightarrow> 'q deck" where
  "deck_punch_in d button = d\<lparr>calls := calls d @ [Deck_punch_in button]\<rparr>"

definition deck_punch_out :: "'q deck \<Rightarrow> 'q deck" where
  "deck_punch_out d = d\<lparr>calls := calls d @ [Deck_punch_out]\<rparr>"

text \<open>The C library's \<^verbatim>\<open>pow\<close>; the code calls it on positive bases only.\<close>

definition pow :: "real \<Rightarrow> real \<Rightarrow> real" where
  "pow x y = x powr y"

subsection \<open>Dispatch\<close>

text \<open>
  \<^verbatim>\<open>event_decoded\<close>. The two \<^verbatim>\<open>printf\<close> calls are not modelled. In \<^verbatim>\<open>button - 0x3C\<close> the
  unsigned char is promoted to \<^verbatim>\<open>int\<close>, so the difference is signed.
\<close>

definition event_decoded :: "'q deck \<Rightarrow> uchar \<Rightarrow> bool \<Rightarrow> uchar \<Rightarrow> bool \<Rightarrow> 'q deck" where
  "event_decoded d action shift button on =
     (let d1 = (if shift \<and> on then deck_unset_cue d button else d)
      in if shift then d1
         else
           let d2 = (if action = CUE \<and> on then deck_cue d1 button else d1);
               d3 = (if action = LOOP
                     then (if on then deck_punch_in d2 button else deck_punch_out d2)
                     else d2)
           in if action = NOTE
              then d3\<lparr>player := (player d3)\<lparr>nominal_pitch :=
                     pow (pow 2 (1 / 12)) (real_of_int (uint button - 0x3C))\<rparr>\<rparr>
              else d3)"

subsection \<open>Decoding\<close>

text \<open>
  \<^verbatim>\<open>event\<close> declares \<^verbatim>\<open>unsigned char action, button; bool on, shift;\<close> without initialisers.
  \<open>action\<close> and \<open>on\<close> are assigned on every path that reaches the call of
  \<^verbatim>\<open>event_decoded\<close>; \<open>button\<close> and \<open>shift\<close> are not assigned on every path of the text, so
  the model takes their indeterminate initial contents as the argument \<open>(button0, shift0)\<close>.

  \<open>decode\<close> is \<^verbatim>\<open>event\<close> up to the call of \<^verbatim>\<open>event_decoded\<close>: \<open>None\<close> for the two early
  returns, otherwise the arguments \<open>(action, shift, button, on)\<close> of the call. A message
  \<^verbatim>\<open>buf[3]\<close> is the triple of its bytes.
\<close>

type_synonym midi_msg = "uchar \<times> uchar \<times> uchar"

definition decode :: "uchar \<times> bool \<Rightarrow> midi_msg \<Rightarrow> (uchar \<times> bool \<times> uchar \<times> bool) option" where
  "decode locals buf =
     (case locals of (button0, shift0) \<Rightarrow>
      case buf of (buf0, buf1, buf2) \<Rightarrow>
      case (if buf0 = 0x90 then Some NOTE
            else if buf0 = 0x91 then Some CUE
            else None) of
        None \<Rightarrow> None
      | Some action \<Rightarrow>
          (case (if action = CUE \<or> action = LOOP then
                   (if buf1 \<in> {0x24, 0x25, 0x26, 0x27} then Some (buf1 - 0x24, False)
                    else if buf1 \<in> {0x28, 0x29, 0x30, 0x31} then Some (buf1 - 0x28, True)
                    else None)
                 else if action = NOTE then Some (buf1, shift0)
                 else Some (button0, shift0)) of
             None \<Rightarrow> None
           | Some (button, shift) \<Rightarrow>
               let on = (if buf2 = 0x00 then False else True)
               in Some (action, shift, button, on)))"

text \<open>\<^verbatim>\<open>struct dicer\<close>: the bound deck (the MIDI handle and the unused output buffer are
  left out).\<close>

record 'q dicer =
  deck :: "'q deck"

definition event :: "'q dicer \<Rightarrow> uchar \<times> bool \<Rightarrow> midi_msg \<Rightarrow> 'q dicer" where
  "event d locals buf =
     (case decode locals buf of
        None \<Rightarrow> d
      | Some (action, shift, button, on) \<Rightarrow>
          d\<lparr>deck := event_decoded (deck d) action shift button on\<rparr>)"

subsection \<open>The realtime handler\<close>

text \<open>
  \<^verbatim>\<open>midi_read\<close> belongs to \<^verbatim>\<open>midi.h\<close>, which is not part of the two files. The transport is
  the list of the results of its coming calls: an error (\<open>z = -1\<close>), no data (\<open>z = 0\<close>), or
  bytes read, with the buffer as the call leaves it. Each element carries the indeterminate
  contents of the locals of the call of \<^verbatim>\<open>event\<close> that it leads to. An exhausted list reads
  as no data. \<^verbatim>\<open>realtime\<close> returns \<open>-1\<close> or \<open>0\<close>, and the dicer.
\<close>

datatype midi_read = Read_error | Read_none | Read_bytes midi_msg

fun realtime :: "'q dicer \<Rightarrow> (midi_read \<times> uchar \<times> bool) list \<Rightarrow> int \<times> 'q dicer" where
  "realtime d [] = (0, d)"
| "realtime d ((Read_error, locals) # rest) = (- 1, d)"
| "realtime d ((Read_none, locals) # rest) = (0, d)"
| "realtime d ((Read_bytes buf, locals) # rest) = realtime (event d locals buf) rest"

section \<open>Vocabulary of the properties\<close>

text \<open>The deck operations of the loop class.\<close>

fun is_punch :: "deck_call \<Rightarrow> bool" where
  "is_punch (Deck_punch_in b) = True"
| "is_punch Deck_punch_out = True"
| "is_punch (Deck_cue b) = False"
| "is_punch (Deck_unset_cue b) = False"

text \<open>
  \<open>queue_empty_run iq n p\<close>: starting from the player \<open>p\<close>, the input queue yields no
  entry at each of the next \<open>n\<close> rendered samples.
\<close>

fun queue_empty_run :: "'q interpolate_queue \<Rightarrow> nat \<Rightarrow> 'q player \<Rightarrow> bool" where
  "queue_empty_run iq 0 p = True"
| "queue_empty_run iq (Suc n) p =
     (\<not> fst (iq (scqueue p) (timestamp p)) \<and> queue_empty_run iq n (update_position iq p))"

subsection \<open>Concrete inputs\<close>

text \<open>One second of a constant signal at 44100 samples per second.\<close>

definition tone_track :: track where
  "tone_track =
     \<lparr>length_t = 44100, rate = 44100, sample_data = (\<lambda>k c. if c = 0 then 1000 else - 2000)\<rparr>"

text \<open>A player at position \<open>0\<close> bound to that track, advancing a quarter of a second
  per rendered sample, its lock free.\<close>

definition demo_player :: "unit player" where
  "demo_player =
     \<lparr>position = 0, target_position = 1, offset = 0, last_difference = 0,
      last_position = 0, pitch = 1 / 4, sync_pitch = 1, nominal_pitch = 1, volume = 0,
      timestamp = 0, sample_dt = 1 / 48000, samplesSoFar = 0, recalibrate = False,
      timecode_control = False, track = tone_track, scqueue = (), lock = False\<rparr>"

definition demo_render :: "unit render" where
  "demo_render = \<lparr>pl = demo_player, pcm = (\<lambda>k. 0), dither_x = dither_seed\<rparr>"

text \<open>The same player \<open>0.95\<close> seconds into the one-second track.\<close>

definition late_player :: "unit player" where
  "late_player = demo_player\<lparr>position := 19 / 20\<rparr>"

text \<open>The same with the lock held by another thread.\<close>

definition held_render :: "unit render" where
  "held_render = demo_render\<lparr>pl := demo_player\<lparr>lock := True\<rparr>\<rparr>"

text \<open>The double nearest to \<open>0.1\<close> (\<^verbatim>\<open>0x1.999999999999ap-4\<close>), and the demonstration player
  with that pitch.\<close>

definition tenth :: real where
  "tenth = 3602879701896397 / 2 ^ 55"

definition tenth_render :: "unit render" where
  "tenth_render = demo_render\<lparr>pl := demo_player\<lparr>pitch := tenth\<rparr>\<rparr>"

text \<open>A queue that never has an entry.\<close>

definition empty_queue :: "unit interpolate_queue" where
  "empty_queue q ts = (False, q, ts, 0)"

definition demo_dicer :: "unit dicer" where
  "demo_dicer = \<lparr>deck = \<lparr>player = demo_player, calls = []\<rparr>\<rparr>"

section \<open>Properties\<close>

lemma cubic_coefficients_fit:
  fixes y :: "nat \<Rightarrow> sshort"
  defines "a0 \<equiv> sint (y 3) - sint (y 2) - sint (y 0) + sint (y 1)"
  shows "\<bar>a0\<bar> < 2 ^ 31" and "\<bar>sint (y 0) - sint (y 1) - a0\<bar> < 2 ^ 31"
    and "\<bar>sint (y 2) - sint (y 0)\<bar> < 2 ^ 31"
proof -
  have b: "- (2 ^ 15) \<le> sint (y k) \<and> sint (y k) < 2 ^ 15" for k
    using sint_ge [of "y k"] sint_lt [of "y k"] by simp
  from b [of 0] b [of 1] b [of 2] b [of 3]
  show "\<bar>a0\<bar> < 2 ^ 31" and "\<bar>sint (y 0) - sint (y 1) - a0\<bar> < 2 ^ 31"
    and "\<bar>sint (y 2) - sint (y 0)\<bar> < 2 ^ 31"
    unfolding a0_def by (simp_all, linarith+)
qed

text \<open>
  C7. For every four 16-bit samples \<open>y 0 .. y 3\<close>, cubic interpolation at the fractional
  position \<open>mu = 0\<close> returns exactly the second tap \<open>y 1\<close> (as a signed value), before
  dither and clamping.
\<close>

theorem cubic_interpolate_at_zero:
  "cubic_interpolate y 0 = real_of_int (sint (y 1))"
  by (simp add: cubic_interpolate_def SQ_def)

subsection \<open>Rounding\<close>

lemma floor_log2:
  fixes x :: real and e :: int
  assumes "2 powr real_of_int e \<le> \<bar>x\<bar>" "\<bar>x\<bar> < 2 powr (real_of_int e + 1)"
  shows "\<lfloor>log 2 \<bar>x\<bar>\<rfloor> = e"
proof -
  have pos: "0 < \<bar>x\<bar>"
    using assms(1) powr_gt_zero [of 2 "real_of_int e"] by linarith
  have "real_of_int e \<le> log 2 \<bar>x\<bar>"
    using assms(1) pos by (simp add: le_log_iff)
  moreover have "log 2 \<bar>x\<bar> < real_of_int e + 1"
    using assms(2) pos by (simp add: log_less_iff)
  ultimately show ?thesis by linarith
qed

text \<open>How \<open>fl\<close> is computed: scale \<open>x\<close> by the power of two that brings it to 53 bits
  before the point, round, and scale back.\<close>

lemma fl_up:
  fixes x :: real and k :: nat
  assumes lo: "2 ^ 52 \<le> \<bar>x\<bar> * 2 ^ k" and hi: "\<bar>x\<bar> * 2 ^ k < 2 ^ 53" and k: "k \<le> 1074"
  shows "fl x = real_of_int (round_even (x * 2 ^ k)) / 2 ^ k"
proof -
  let ?e = "52 - int k"
  have p: "(2::real) powr real_of_int ?e = 2 ^ 52 / 2 ^ k"
    by (simp add: powr_diff powr_realpow)
  have p1: "(2::real) powr (real_of_int ?e + 1) = 2 ^ 53 / 2 ^ k"
    by (simp add: powr_diff powr_add powr_realpow)
  have a: "2 powr real_of_int ?e \<le> \<bar>x\<bar>"
    unfolding p using lo by (simp add: field_simps)
  have b: "\<bar>x\<bar> < 2 powr (real_of_int ?e + 1)"
    unfolding p1 using hi by (simp add: field_simps)
  have e: "\<lfloor>log 2 \<bar>x\<bar>\<rfloor> = ?e" by (rule floor_log2 [OF a b])
  have nz: "x \<noteq> 0" using lo by auto
  have m: "max ?e (- 1022) = ?e" using k by simp
  have q: "(2::real) powr (real_of_int ?e - 52) = 1 / 2 ^ k"
    by (simp add: powr_minus powr_realpow divide_simps)
  show ?thesis
    unfolding fl_def Let_def e m q using nz by simp
qed

lemma fl_quarters: "fl (1 / 4) = 1 / 4" "fl (1 / 2) = 1 / 2" "fl (3 / 4) = 3 / 4"
  using fl_up [of "1 / 4" 54] fl_up [of "1 / 2" 53] fl_up [of "3 / 4" 53]
  by (simp_all add: round_even_def)

subsection \<open>The render path\<close>

lemma pl_render_sample: "pl (render_sample iq s m) = update_position iq (pl m)"
  by (simp add: render_sample_def Let_def split: prod.splits)

lemma update_position_empty:
  "\<not> fst (iq (scqueue p) (timestamp p)) \<Longrightarrow>
     position (update_position iq p) = fl (position p + pitch p) \<and>
     pitch (update_position iq p) = pitch p"
  by (auto simp: update_position_def Let_def split: prod.splits)

lemma update_position_entry:
  "iq (scqueue p) (timestamp p) = (True, q', ts', target) \<Longrightarrow>
     position (update_position iq p) = target \<and>
     pitch (update_position iq p) = fl (target - last_position p)"
  by (simp add: update_position_def Let_def)

text \<open>Over a run without queue entries the position is the pitch added once per sample,
  each sum rounded, and nothing else writes it; the pitch stays.\<close>

lemma empty_run_iterates:
  "queue_empty_run iq n (pl m) \<Longrightarrow>
     position (pl (build_pcm_from iq (s + n) s m)) =
       ((\<lambda>x. fl (x + pitch (pl m))) ^^ n) (position (pl m)) \<and>
     pitch (pl (build_pcm_from iq (s + n) s m)) = pitch (pl m)"
proof (induction n arbitrary: s m)
  case 0
  then show ?case by (simp add: build_pcm_from.simps [of iq s s])
next
  case (Suc n)
  let ?m' = "render_sample iq s m"
  from Suc.prems have e: "\<not> fst (iq (scqueue (pl m)) (timestamp (pl m)))"
    and r: "queue_empty_run iq n (pl ?m')"
    by (simp_all add: pl_render_sample)
  have unf: "build_pcm_from iq (s + Suc n) s m = build_pcm_from iq (Suc s + n) (Suc s) ?m'"
    by (subst build_pcm_from.simps) simp
  from update_position_empty [of iq "pl m", OF e]
  have p: "position (pl ?m') = fl (position (pl m) + pitch (pl m))"
    and q: "pitch (pl ?m') = pitch (pl m)"
    by (simp_all add: pl_render_sample)
  have sw: "((\<lambda>x. fl (x + pitch (pl m))) ^^ n) (fl (position (pl m) + pitch (pl m))) =
      ((\<lambda>x. fl (x + pitch (pl m))) ^^ Suc n) (position (pl m))"
    using funpow_swap1 [of "\<lambda>x. fl (x + pitch (pl m))" n "position (pl m)"] by simp
  from Suc.IH [OF r, of "Suc s"] show ?case
    unfolding unf p q sw by simp
qed

text \<open>When every partial sum is a double, the rounded additions are exact.\<close>

lemma exact_iterates:
  "\<forall>k\<in>{1..n}. fl (x + real k * P) = x + real k * P \<Longrightarrow>
     ((\<lambda>x. fl (x + P)) ^^ n) x = x + real n * P"
proof (induction n)
  case 0
  then show ?case by simp
next
  case (Suc n)
  from Suc.prems have "\<forall>k\<in>{1..n}. fl (x + real k * P) = x + real k * P"
    by simp
  then have ih: "((\<lambda>x. fl (x + P)) ^^ n) x = x + real n * P"
    by (rule Suc.IH)
  have "Suc n \<in> {1..Suc n}" by simp
  with Suc.prems have st: "fl (x + real (Suc n) * P) = x + real (Suc n) * P"
    by blast
  have eq: "x + real n * P + P = x + real (Suc n) * P"
    by (simp add: algebra_simps)
  show ?case
    by (simp only: funpow.simps o_apply ih eq st)
qed

lemma empty_queue_run: "queue_empty_run empty_queue n p"
  by (induction n arbitrary: p) (simp_all add: empty_queue_def)

text \<open>
  C3, as the claim states it, fails: the player at position \<open>0\<close> with the pitch \<open>0.1\<close>
  (as a double) renders six samples with an empty queue. The six rounded additions of
  \<^verbatim>\<open>pl->position += pl->pitch\<close> leave the position at \<^verbatim>\<open>0x1.3333333333333p-1\<close>. That is
  neither \<open>0 + 6 * P\<close> nor the double nearest to it, \<^verbatim>\<open>0x1.3333333333334p-1\<close>.
\<close>

theorem dead_reckoning_counterexample:
  "queue_empty_run empty_queue 6 (pl tenth_render) \<and>
   position (pl tenth_render) = 0 \<and> pitch (pl tenth_render) = tenth \<and>
   position (pl (build_pcm_from empty_queue 6 0 tenth_render)) =
     5404319552844595 / 2 ^ 53 \<and>
   position (pl (build_pcm_from empty_queue 6 0 tenth_render)) \<noteq>
     position (pl tenth_render) + 6 * pitch (pl tenth_render) \<and>
   fl (position (pl tenth_render) + 6 * pitch (pl tenth_render)) = 5404319552844596 / 2 ^ 53"
proof -
  define f where "f = (\<lambda>x. fl (x + tenth))"
  have pos: "position (pl tenth_render) = 0" and pit: "pitch (pl tenth_render) = tenth"
    by (simp_all add: tenth_render_def demo_render_def demo_player_def)
  have s1: "f 0 = 3602879701896397 / 2 ^ 55"
    unfolding f_def using fl_up [of tenth 56] by (simp add: tenth_def round_even_def)
  have s2: "f (3602879701896397 / 2 ^ 55) = 3602879701896397 / 2 ^ 54"
    unfolding f_def using fl_up [of "3602879701896397 / 2 ^ 55 + tenth" 55]
    by (simp add: tenth_def round_even_def)
  have s3: "f (3602879701896397 / 2 ^ 54) = 5404319552844596 / 2 ^ 54"
    unfolding f_def using fl_up [of "3602879701896397 / 2 ^ 54 + tenth" 54]
    by (simp add: tenth_def round_even_def)
  have s4: "f (5404319552844596 / 2 ^ 54) = 7205759403792794 / 2 ^ 54"
    unfolding f_def using fl_up [of "5404319552844596 / 2 ^ 54 + tenth" 54]
    by (simp add: tenth_def round_even_def)
  have s5: "f (7205759403792794 / 2 ^ 54) = 4503599627370496 / 2 ^ 53"
    unfolding f_def using fl_up [of "7205759403792794 / 2 ^ 54 + tenth" 53]
    by (simp add: tenth_def round_even_def)
  have s6: "f (4503599627370496 / 2 ^ 53) = 5404319552844595 / 2 ^ 53"
    unfolding f_def using fl_up [of "4503599627370496 / 2 ^ 53 + tenth" 53]
    by (simp add: tenth_def round_even_def)
  have "(f ^^ 6) 0 = f (f (f (f (f (f 0)))))"
    by (simp add: eval_nat_numeral)
  also have "\<dots> = 5404319552844595 / 2 ^ 53"
    by (simp only: s1 s2 s3 s4 s5 s6)
  finally have six: "(f ^^ 6) 0 = 5404319552844595 / 2 ^ 53" .
  have run: "queue_empty_run empty_queue 6 (pl tenth_render)"
    by (rule empty_queue_run)
  from empty_run_iterates [OF run, of 0]
  have "position (pl (build_pcm_from empty_queue (0 + 6) 0 tenth_render)) = (f ^^ 6) 0"
    by (simp only: pos pit f_def)
  then have after: "position (pl (build_pcm_from empty_queue (0 + 6) 0 tenth_render)) =
      5404319552844595 / 2 ^ 53"
    by (simp only: six)
  have exact: "fl (6 * tenth) = 5404319552844596 / 2 ^ 53"
    using fl_up [of "6 * tenth" 53] by (simp add: tenth_def round_even_def)
  have ne: "(5404319552844595 :: real) / 2 ^ 53 \<noteq> 0 + 6 * tenth"
    by (simp add: tenth_def)
  from run pos pit after exact ne show ?thesis by simp
qed

text \<open>
  C3, amended. For every pitch \<open>P\<close> and every run of \<open>n\<close> consecutive rendered samples
  (output samples \<open>s .. s + n - 1\<close> of a block) at each of which the input queue yields no
  entry: the position after the run is the position before it with \<open>P\<close> added \<open>n\<close> times
  in double arithmetic, each sum rounded to the nearest double; the pitch is still \<open>P\<close>;
  nothing else changes the position. The position is the one before the run plus exactly
  \<open>n * P\<close> when each partial sum \<open>position + k * P\<close>, \<open>k = 1 .. n\<close>, is a double.
\<close>

theorem dead_reckoning_rounded:
  "queue_empty_run iq n (pl m) \<Longrightarrow>
     position (pl (build_pcm_from iq (s + n) s m)) =
       ((\<lambda>x. fl (x + pitch (pl m))) ^^ n) (position (pl m)) \<and>
     pitch (pl (build_pcm_from iq (s + n) s m)) = pitch (pl m) \<and>
     ((\<forall>k\<in>{1..n}. fl (position (pl m) + real k * pitch (pl m)) =
                    position (pl m) + real k * pitch (pl m)) \<longrightarrow>
      position (pl (build_pcm_from iq (s + n) s m)) =
        position (pl m) + real n * pitch (pl m))"
  using empty_run_iterates [of iq n m s] exact_iterates [of n "position (pl m)" "pitch (pl m)"]
  by simp

theorem dead_reckoning_rounded_witness:
  "queue_empty_run empty_queue 3 (pl demo_render) \<and>
   fl (1 / 4) = 1 / 4 \<and> fl (1 / 2) = 1 / 2 \<and> fl (3 / 4) = 3 / 4 \<and>
   position (pl (build_pcm_from empty_queue 3 0 demo_render)) = 3 / 4 \<and>
   pitch (pl (build_pcm_from empty_queue 3 0 demo_render)) = 1 / 4"
proof -
  have run: "queue_empty_run empty_queue 3 (pl demo_render)"
    by (rule empty_queue_run)
  have pos: "position (pl demo_render) = 0" and pit: "pitch (pl demo_render) = 1 / 4"
    by (simp_all add: demo_render_def demo_player_def)
  have ex: "\<forall>k\<in>{1..3}. fl (0 + real k * (1 / 4)) = 0 + real k * (1 / 4)"
  proof
    fix k :: nat
    assume "k \<in> {1..3}"
    then consider "k = 1" | "k = 2" | "k = 3" by force
    then show "fl (0 + real k * (1 / 4)) = 0 + real k * (1 / 4)"
      by cases (simp_all add: fl_quarters)
  qed
  from dead_reckoning_rounded [OF run, of 0, unfolded pos pit] ex
  have "position (pl (build_pcm_from empty_queue (0 + 3) 0 demo_render)) =
      0 + real 3 * (1 / 4)"
    and "pitch (pl (build_pcm_from empty_queue (0 + 3) 0 demo_render)) = 1 / 4"
    by blast+
  with run fl_quarters show ?thesis
    by simp
qed

text \<open>The state after the first \<open>n\<close> samples of a longer block is that of the shorter
  block: a run inside a block is a run of \<open>build_pcm_from\<close>.\<close>

lemma build_pcm_from_split:
  "s + n \<le> samples \<Longrightarrow>
     build_pcm_from iq samples s m =
       build_pcm_from iq samples (s + n) (build_pcm_from iq (s + n) s m)"
proof (induction n arbitrary: s m)
  case 0
  then show ?case by (simp add: build_pcm_from.simps [of iq s s])
next
  case (Suc n)
  then have lt: "s < samples" and le: "Suc s + n \<le> samples" by simp_all
  have l: "build_pcm_from iq samples s m =
      build_pcm_from iq samples (Suc s) (render_sample iq s m)"
    using lt by (subst build_pcm_from.simps) simp
  have r: "build_pcm_from iq (s + Suc n) s m =
      build_pcm_from iq (Suc s + n) (Suc s) (render_sample iq s m)"
    by (subst build_pcm_from.simps) simp
  from Suc.IH [OF le, of "render_sample iq s m"] show ?case
    unfolding l r by simp
qed

text \<open>The first two draws of the dither register, and the first output sample of the
  demonstration player: both channels interpolate at \<open>f = 0\<close> inside the track.\<close>

lemma dither_seed_1: "dither dither_seed = (1533 / 4096, 0x7ddff59d)"
  by (simp add: dither_def dither_seed_def Let_def)

lemma dither_seed_2: "dither 0x7ddff59d = (1019 / 4096, 0xfbbfeb3b)"
  by (simp add: dither_def Let_def)

lemma demo_first_sample:
  "pcm (render_sample empty_queue 0 demo_render) 0 = 500 \<and>
   pcm (render_sample empty_queue 0 demo_render) 1 = - 999 \<and>
   dither_x (render_sample empty_queue 0 demo_render) = 0xfbbfeb3b"
proof -
  let ?p = "demo_player\<lparr>position := 1 / 4, samplesSoFar := 1\<rparr>"
  have up: "update_position empty_queue (pl demo_render) = ?p"
    by (simp add: update_position_def empty_queue_def demo_render_def demo_player_def Let_def
        fl_quarters)
  have w: "window ?p = (11999, 0)"
    by (simp add: window_def int_of_double_def Let_def)
  have tr: "track ?p = tone_track"
    by (simp add: demo_player_def)
  have c0: "cubic_interpolate (taps tone_track 11999 0) 0 = 1000"
    by (simp add: cubic_interpolate_def SQ_def taps_def tone_track_def track_get_sample_def)
  have c1: "cubic_interpolate (taps tone_track 11999 (Suc 0)) 0 = - 2000"
    by (simp add: cubic_interpolate_def SQ_def taps_def tone_track_def track_get_sample_def)
  have ch: "[0..<PLAYER_CHANNELS] = [0, Suc 0]"
    by (simp add: PLAYER_CHANNELS_def upt_rec)
  have s0: "clamp_short (1 / 2 * 1000 + 1533 / 4096) = 500"
    by (simp add: clamp_short_def SHRT_MAX_def SHRT_MIN_def int_of_double_def)
  have s1: "clamp_short (1 / 2 * (- 2000) + 1019 / 4096) = - 999"
    by (simp add: clamp_short_def SHRT_MAX_def SHRT_MIN_def int_of_double_def)
  have f: "fold (render_channel (taps tone_track 11999) 0 0.5 0) [0, Suc 0]
             (\<lambda>k. 0, dither_seed)
      = (((\<lambda>k. 0)(0 := 500, 1 := - 999)), 0xfbbfeb3b)"
    using s0 s1 by (simp add: render_channel_def dither_seed_1 dither_seed_2 c0 c1)
  have "render_sample empty_queue 0 demo_render =
      demo_render\<lparr>pl := ?p, pcm := (\<lambda>k. 0)(0 := 500, 1 := - 999), dither_x := 0xfbbfeb3b\<rparr>"
    unfolding render_sample_def up w Let_def tr ch prod.case
    using f by (simp add: demo_render_def)
  then show ?thesis by simp
qed

lemma demo_block:
  "build_pcm empty_queue demo_render (Suc 0) = render_sample empty_queue 0 demo_render"
  by (simp add: build_pcm_def build_pcm_from.simps [of _ "Suc 0"])

subsection \<open>Resynchronisation\<close>

text \<open>
  C4. For every player with the recalibrate flag clear, if
  \<open>\<bar>position - target_position\<bar> > 1/8\<close> then \<open>retarget\<close> sets the position to the target
  position (which it does not change), whatever the pitch, and leaves \<open>sync_pitch\<close> as it was.
\<close>

theorem retarget_hard_seek:
  "\<not> recalibrate p \<Longrightarrow> \<bar>position p - target_position p\<bar> > 1 / 8 \<Longrightarrow>
     position (retarget p) = target_position p \<and>
     target_position (retarget p) = target_position p \<and>
     sync_pitch (retarget p) = sync_pitch p"
  by (simp add: retarget_def SKIP_THRESHOLD_def Let_def)

theorem retarget_hard_seek_witness:
  "\<not> recalibrate demo_player \<and>
   \<bar>position demo_player - target_position demo_player\<bar> > 1 / 8 \<and>
   position (retarget demo_player) = 1 \<and> sync_pitch (retarget demo_player) = 1"
  using retarget_hard_seek [of demo_player] by (simp add: demo_player_def)

subsection \<open>The window and the track's rate\<close>

lemma window_track: "window (p\<lparr>track := tr\<rparr>) = window p"
  by (simp add: window_def)

lemma window_nonneg:
  "0 \<le> position p \<Longrightarrow>
     fst (window p) = \<lfloor>position p * 48000\<rfloor> - 1 \<and>
     snd (window p) = frac (position p * 48000)"
  by (simp add: window_def int_of_double_def frac_def Let_def)

text \<open>
  C2 (the code differs). The window of \<^verbatim>\<open>build_pcm\<close> is placed at \<open>position * 48000\<close>, a
  literal, and not at \<open>position * rate\<close> of the bound track. For the one-second track at
  44100 samples per second and the position \<open>0.95\<close> seconds: the coordinate by the track's
  rate is \<open>41895\<close>, inside the track, and \<open>player_get_remain\<close>, which does divide by the
  track's rate, reports \<open>0.05\<close> seconds left; the window starts at \<open>45599\<close>, past the end
  of the track, so that every tap is silence.
\<close>

theorem window_uses_literal_rate:
  "rate (track late_player) = 44100 \<and>
   position late_player * real_of_int (rate (track late_player)) = 41895 \<and>
   player_get_remain late_player = 1 / 20 \<and>
   window late_player = (45599, 0) \<and>
   (\<forall>c q. taps (track late_player) (fst (window late_player)) c q = 0)"
  by (simp add: late_player_def demo_player_def tone_track_def player_get_remain_def
      window_def int_of_double_def taps_def Let_def)

subsection \<open>The audio callback and the lock\<close>

lemma update_position_lock:
  "update_position iq (p\<lparr>lock := l\<rparr>) = (update_position iq p)\<lparr>lock := l\<rparr>"
  by (simp add: update_position_def Let_def split: prod.splits)

lemma window_lock: "window (p\<lparr>lock := l\<rparr>) = window p"
  by (simp add: window_def)

lemma render_sample_lock:
  "render_sample iq s (m\<lparr>pl := (pl m)\<lparr>lock := l\<rparr>\<rparr>) =
     (render_sample iq s m)\<lparr>pl := (pl (render_sample iq s m))\<lparr>lock := l\<rparr>\<rparr>"
  by (simp add: render_sample_def update_position_lock window_lock Let_def split: prod.splits)

text \<open>Rendering neither reads nor writes the lock.\<close>

lemma build_pcm_from_lock:
  "build_pcm_from iq n s (m\<lparr>pl := (pl m)\<lparr>lock := l\<rparr>\<rparr>) =
     (build_pcm_from iq n s m)\<lparr>pl := (pl (build_pcm_from iq n s m))\<lparr>lock := l\<rparr>\<rparr>"
proof (induction iq n s m rule: build_pcm_from.induct)
  case (1 iq samples s m)
  show ?case
  proof (cases "s < samples")
    case True
    with 1 show ?thesis
      by (simp add: build_pcm_from.simps [of iq samples s] render_sample_lock)
  next
    case False
    then show ?thesis by (simp add: build_pcm_from.simps [of iq samples s])
  qed
qed

lemma lock_update_position: "lock (update_position iq p) = lock p"
  by (simp add: update_position_def Let_def split: prod.splits)

lemma lock_build_pcm_from: "lock (pl (build_pcm_from iq n s m)) = lock (pl m)"
proof (induction iq n s m rule: build_pcm_from.induct)
  case (1 iq samples s m)
  show ?case
  proof (cases "s < samples")
    case True
    with 1 show ?thesis
      by (simp add: build_pcm_from.simps [of iq samples s] pl_render_sample lock_update_position)
  next
    case False
    then show ?thesis by (simp add: build_pcm_from.simps [of iq samples s])
  qed
qed

text \<open>
  C8. For every player, output buffer and dither register: if the try-lock of
  \<open>player_collect\<close> fails (the lock is held), the call returns everything unchanged: the
  output buffer and the whole player (position, pitch, offset, time stamp, queue); if it
  succeeds, the result is that of rendering the block with \<open>build_pcm\<close>, and the lock is
  free afterwards.
\<close>

theorem collect_try_lock:
  "(lock (pl m) \<longrightarrow> player_collect iq m n = m) \<and>
   (\<not> lock (pl m) \<longrightarrow>
      player_collect iq m n = build_pcm iq m n \<and> \<not> lock (pl (player_collect iq m n)))"
proof (intro conjI impI)
  assume "lock (pl m)"
  then show "player_collect iq m n = m"
    by (simp add: player_collect_def spin_try_lock_def)
next
  assume f: "\<not> lock (pl m)"
  have "player_collect iq m n =
     (build_pcm iq m n)\<lparr>pl := (pl (build_pcm iq m n))\<lparr>lock := False\<rparr>\<rparr>"
    using f by (simp add: player_collect_def spin_try_lock_def spin_unlock_def build_pcm_def
        build_pcm_from_lock Let_def)
  moreover have "lock (pl (build_pcm iq m n)) = False"
    using f by (simp add: build_pcm_def lock_build_pcm_from)
  moreover have
    "(pl (build_pcm iq m n))\<lparr>lock := lock (pl (build_pcm iq m n))\<rparr> = pl (build_pcm iq m n)"
    by simp
  ultimately show "player_collect iq m n = build_pcm iq m n"
    by simp
next
  assume "\<not> lock (pl m)"
  then show "\<not> lock (pl (player_collect iq m n))"
    by (simp add: player_collect_def spin_try_lock_def spin_unlock_def Let_def)
qed

theorem collect_try_lock_witness:
  "lock (pl held_render) \<and> player_collect empty_queue held_render 1 = held_render \<and>
   pcm (player_collect empty_queue held_render 1) 0 = 0 \<and>
   \<not> lock (pl demo_render) \<and>
   player_collect empty_queue demo_render 1 = build_pcm empty_queue demo_render 1 \<and>
   \<not> lock (pl (player_collect empty_queue demo_render 1)) \<and>
   pcm (player_collect empty_queue demo_render 1) 0 = 500 \<and>
   pcm (player_collect empty_queue demo_render 1) 1 = - 999"
proof -
  have h: "lock (pl held_render)"
    by (simp add: held_render_def)
  have f: "\<not> lock (pl demo_render)"
    by (simp add: demo_render_def demo_player_def)
  from collect_try_lock [of held_render empty_queue 1] h
  have 1: "player_collect empty_queue held_render 1 = held_render" by blast
  have z: "pcm held_render 0 = 0"
    by (simp add: held_render_def demo_render_def)
  from collect_try_lock [of demo_render empty_queue 1] f
  have 2: "player_collect empty_queue demo_render 1 = build_pcm empty_queue demo_render 1"
    and 3: "\<not> lock (pl (player_collect empty_queue demo_render 1))" by blast+
  from h f 1 2 3 z demo_first_sample show ?thesis
    by (simp add: demo_block)
qed

subsection \<open>Dispatch of decoded events\<close>

text \<open>
  C6. For every button \<open>b\<close> (and every action class): dispatching a decoded event with
  shift set and pressed invokes \<open>deck_unset_cue\<close> on \<open>b\<close> and no other deck operation, and
  leaves the deck's player as it was; dispatching one with shift set and released leaves
  the deck unchanged, so no deck operation is invoked.
\<close>

theorem shifted_dispatch:
  "event_decoded d action True button True = deck_unset_cue d button \<and>
   calls (event_decoded d action True button True) = calls d @ [Deck_unset_cue button] \<and>
   player (event_decoded d action True button True) = player d \<and>
   event_decoded d action True button False = d"
  by (simp add: event_decoded_def deck_unset_cue_def)

lemma action_classes_differ: "CUE \<noteq> LOOP" "NOTE \<noteq> LOOP" "NOTE \<noteq> CUE"
  by (simp_all add: CUE_def LOOP_def NOTE_def)

lemma pow_semitones: "pow (pow 2 (1 / 12)) (real_of_int k) = 2 powr (real_of_int k / 12)"
  by (simp add: pow_def powr_powr)

text \<open>An unshifted event of the note class sets the nominal pitch, pressed or released.\<close>

lemma event_decoded_note:
  "nominal_pitch (player (event_decoded d NOTE False button on)) =
     2 powr ((real_of_int (uint button) - 60) / 12)"
  using pow_semitones [of "uint button - 60"]
  by (simp add: event_decoded_def action_classes_differ Let_def)

lemma equal_temperament:
  "nominal_pitch (player (event_decoded d NOTE False 60 on)) = 1"
  "nominal_pitch (player (event_decoded d NOTE False 72 on)) = 2"
  "nominal_pitch (player (event_decoded d NOTE False 48 on)) = 1 / 2"
proof -
  have u: "uint (60 :: uchar) = 60" "uint (72 :: uchar) = 72" "uint (48 :: uchar) = 48"
    by simp_all
  show "nominal_pitch (player (event_decoded d NOTE False 60 on)) = 1"
    by (simp add: event_decoded_note u)
  show "nominal_pitch (player (event_decoded d NOTE False 72 on)) = 2"
    by (simp add: event_decoded_note u)
  show "nominal_pitch (player (event_decoded d NOTE False 48 on)) = 1 / 2"
    by (simp add: event_decoded_note u powr_minus_divide)
qed

subsection \<open>Decoding of wire messages\<close>

lemma decode_action: "decode locals buf = Some (a, sh, b, on) \<Longrightarrow> a = NOTE \<or> a = CUE"
  by (auto simp: decode_def split: prod.splits if_splits option.splits)

lemma decode_note:
  "decode (button0, shift0) (0x90, data1, data2) = Some (NOTE, shift0, data1, data2 \<noteq> 0)"
  by (simp add: decode_def action_classes_differ)

lemma decode_cue_unshifted:
  "data1 \<in> {0x24, 0x25, 0x26, 0x27} \<Longrightarrow>
     decode locals (0x91, data1, data2) = Some (CUE, False, data1 - 0x24, data2 \<noteq> 0) \<and>
     data1 - 0x24 \<in> {0, 1, 2, 3}"
  by (auto simp: decode_def)

lemma decode_cue_shifted:
  "data1 \<in> {0x28, 0x29, 0x30, 0x31} \<Longrightarrow>
     decode locals (0x91, data1, data2) = Some (CUE, True, data1 - 0x28, data2 \<noteq> 0) \<and>
     data1 - 0x28 \<in> {0, 1, 8, 9}"
  by (auto simp: decode_def)

text \<open>
  C1 (the code differs). The message \<open>(0x91, 0x30, 0x7F)\<close> lies in the shifted range and
  decodes with shift set, but to button \<open>0x30 - 0x28 = 8\<close>, and \<open>(0x91, 0x31, 0x7F)\<close> to
  button \<open>9\<close>: neither lies in \<open>{0, 1, 2, 3}\<close>. The first one invokes \<open>deck_unset_cue\<close> on
  button \<open>8\<close>.
\<close>

theorem shifted_range_button:
  "decode locals (0x91, 0x30, 0x7F) = Some (CUE, True, 8, True) \<and>
   decode locals (0x91, 0x31, 0x7F) = Some (CUE, True, 9, True) \<and>
   (8 :: uchar) \<notin> {0, 1, 2, 3} \<and> (9 :: uchar) \<notin> {0, 1, 2, 3} \<and>
   calls (deck (event demo_dicer locals (0x91, 0x30, 0x7F))) = [Deck_unset_cue 8]"
  by (simp add: decode_def event_def event_decoded_def deck_unset_cue_def demo_dicer_def)

lemma event_note_shift_clear:
  "nominal_pitch (player (deck (event d (button0, False) (0x90, data1, data2)))) =
     2 powr ((real_of_int (uint data1) - 60) / 12)"
  by (simp add: event_def decode_note event_decoded_note)

lemma event_note_shift_set:
  "player (deck (event d (button0, True) (0x90, data1, data2))) = player (deck d)"
  "calls (deck (event d (button0, True) (0x90, data1, data2))) =
     calls (deck d) @ (if data2 \<noteq> 0 then [Deck_unset_cue data1] else [])"
  by (simp_all add: event_def decode_note event_decoded_def deck_unset_cue_def)

text \<open>
  C5 (the code differs). The note message \<open>(0x90, 0x48, 0x7F)\<close> (note 72) arrives after the
  shifted cue message \<open>(0x91, 0x28, 0x7F)\<close>, and the local \<open>shift\<close> of its call of
  \<^verbatim>\<open>event\<close>, never assigned for the note class, holds \<open>true\<close>. The nominal pitch stays at
  its initial \<open>1\<close> instead of becoming \<open>2\<close>, and \<open>deck_unset_cue\<close> is invoked on button
  \<open>0x48\<close>.
\<close>

theorem note_after_shifted_cue:
  "nominal_pitch (player (deck (snd (realtime demo_dicer
      [(Read_bytes (0x91, 0x28, 0x7F), (0, False)),
       (Read_bytes (0x90, 0x48, 0x7F), (0, True))])))) = 1 \<and>
   calls (deck (snd (realtime demo_dicer
      [(Read_bytes (0x91, 0x28, 0x7F), (0, False)),
       (Read_bytes (0x90, 0x48, 0x7F), (0, True))]))) = [Deck_unset_cue 0, Deck_unset_cue 0x48] \<and>
   nominal_pitch (player (deck (event demo_dicer (0, True) (0x90, 0x48, 0x7F)))) = 1"
proof -
  have first: "event demo_dicer (0, False) (0x91, 0x28, 0x7F) =
      \<lparr>deck = \<lparr>player = demo_player, calls = [Deck_unset_cue 0]\<rparr>\<rparr>"
    by (simp add: decode_def event_def event_decoded_def deck_unset_cue_def demo_dicer_def)
  have pitch1: "nominal_pitch demo_player = 1"
    by (simp add: demo_player_def)
  show ?thesis
    by (simp add: first event_note_shift_set pitch1) (simp add: demo_dicer_def pitch1)
qed

text \<open>
  C9. For every message of the note class (status \<open>0x90\<close>), the shift flag that \<^verbatim>\<open>event\<close>
  passes to \<^verbatim>\<open>event_decoded\<close> is the indeterminate content \<open>shift0\<close> of its local, which
  the note path never assigns. When that content is \<open>false\<close> the nominal pitch is set; when
  it is \<open>true\<close> the deck's player is left as it was, so the update is not guaranteed, and a
  pressed message (\<open>data2\<close> nonzero) invokes \<open>deck_unset_cue\<close> on the raw note number,
  which can be \<open>127\<close>.
\<close>

theorem note_shift_indeterminate:
  "decode (button0, shift0) (0x90, data1, data2) = Some (NOTE, shift0, data1, data2 \<noteq> 0) \<and>
   nominal_pitch (player (deck (event d (button0, False) (0x90, data1, data2)))) =
     2 powr ((real_of_int (uint data1) - 60) / 12) \<and>
   player (deck (event d (button0, True) (0x90, data1, data2))) = player (deck d) \<and>
   calls (deck (event d (button0, True) (0x90, data1, data2))) =
     calls (deck d) @ (if data2 \<noteq> 0 then [Deck_unset_cue data1] else []) \<and>
   calls (deck (event d (button0, True) (0x90, 127, 0x7F))) =
     calls (deck d) @ [Deck_unset_cue 127]"
  by (simp add: decode_note event_note_shift_clear event_note_shift_set)

lemma event_punch:
  "filter is_punch (calls (deck (event d locals buf))) = filter is_punch (calls (deck d))"
proof (cases "decode locals buf")
  case None
  then show ?thesis by (simp add: event_def)
next
  case (Some t)
  obtain a sh b on where t: "t = (a, sh, b, on)" by (cases t) auto
  with Some have "a = NOTE \<or> a = CUE" using decode_action by blast
  then have "a \<noteq> LOOP" using action_classes_differ by auto
  then show ?thesis using Some t
    by (simp add: event_def event_decoded_def deck_unset_cue_def deck_cue_def Let_def)
qed

lemma realtime_punch:
  "filter is_punch (calls (deck (snd (realtime d reads)))) = filter is_punch (calls (deck d))"
  by (induction d reads rule: realtime.induct) (simp_all add: event_punch)

lemma decode_not_LOOP: "map_option fst (decode locals buf) \<noteq> Some LOOP"
proof (cases "decode locals buf")
  case None
  then show ?thesis by simp
next
  case (Some t)
  obtain a sh b on where t: "t = (a, sh, b, on)" by (cases t) auto
  with Some have "a = NOTE \<or> a = CUE" using decode_action by blast
  then show ?thesis using Some t action_classes_differ by auto
qed

text \<open>
  C10. For every 3-byte message (and whatever the locals of \<^verbatim>\<open>event\<close> hold), the action
  class that the decoder hands to dispatch is never \<open>LOOP\<close>; and for every sequence of
  reads processed by \<open>realtime\<close>, the calls of \<open>deck_punch_in\<close> and \<open>deck_punch_out\<close> in
  the deck's trace are those that were there before: the decoder adds none.
\<close>

theorem loop_class_unreachable:
  "map_option fst (decode locals buf) \<noteq> Some LOOP \<and>
   filter is_punch (calls (deck (event d locals buf))) = filter is_punch (calls (deck d)) \<and>
   filter is_punch (calls (deck (snd (realtime d reads)))) = filter is_punch (calls (deck d))"
  by (intro conjI decode_not_LOOP event_punch realtime_punch)

end
